theory Spec2Isabelle
  imports Main
begin

section \<open>The stimulus catalog of \<open>stimuli_list.js\<close>\<close>

text \<open>
  The script declares three literal tables and computes a fourth list by four nested
  \<open>forEach\<close> loops that push template-literal filenames onto an array. JavaScript
  strings are modelled as \<open>string\<close>; every string of the tables and of the four
  input lists is ASCII, so one \<open>char\<close> is one UTF-16 code unit of the source. The
  \<open>console.log\<close> of the last line prints the generated list and changes nothing; it
  is left out.
\<close>

subsection \<open>Stage 1: discrimination pairs\<close>

text \<open>The object literals \<open>{ t: ..., a: ..., b: ... }\<close>.\<close>

record pair =
  t :: string
  a :: string
  b :: string

definition PAIRS_DISCRIMINATION :: "pair list" where
  "PAIRS_DISCRIMINATION =
     [\<lparr>t = ''sad'', a = ''sad_F137.wav'', b = ''fear_F137.wav''\<rparr>,
      \<lparr>t = ''sad'', a = ''sad_M137.wav'', b = ''fear_M137.wav''\<rparr>,
      \<lparr>t = ''amu'', a = ''amu_F545.wav'', b = ''rel_F545.wav''\<rparr>,
      \<lparr>t = ''amu'', a = ''amu_M545.wav'', b = ''rel_M545.wav''\<rparr>]"

subsection \<open>Stage 2: dry versus reverb targets\<close>

text \<open>The object literals \<open>{ emo: ..., sex: ..., utt: ... }\<close>.\<close>

record target =
  emo :: string
  sex :: string
  utt :: string

definition TARGETS_DRY_RVB :: "target list" where
  "TARGETS_DRY_RVB =
     [\<lparr>emo = ''sad'', sex = ''F'', utt = ''137''\<rparr>,
      \<lparr>emo = ''sad'', sex = ''M'', utt = ''137''\<rparr>,
      \<lparr>emo = ''fear'', sex = ''F'', utt = ''137''\<rparr>,
      \<lparr>emo = ''fear'', sex = ''M'', utt = ''137''\<rparr>,
      \<lparr>emo = ''amu'', sex = ''F'', utt = ''545''\<rparr>,
      \<lparr>emo = ''amu'', sex = ''M'', utt = ''545''\<rparr>,
      \<lparr>emo = ''rel'', sex = ''F'', utt = ''545''\<rparr>,
      \<lparr>emo = ''rel'', sex = ''M'', utt = ''545''\<rparr>]"

subsection \<open>Stage 3: practice files\<close>

definition FILES_PRACTICE_5AFC :: "string list" where
  "FILES_PRACTICE_5AFC =
     [''amu_F137.wav'', ''amu_M137.wav'',
      ''ang_F137.wav'', ''ang_M137.wav'',
      ''sad_F137.wav'', ''sad_M137.wav'',
      ''fear_F137.wav'', ''fear_M137.wav'',
      ''surp_F137.wav'', ''surp_M137.wav'']"

subsection \<open>Stage 4: the generated test files\<close>

definition emotions :: "string list" where
  "emotions = [''amu'', ''ang'', ''sad'', ''fear'', ''surp'']"

definition sexes :: "string list" where
  "sexes = [''F'', ''M'']"

definition utterances :: "string list" where
  "utterances = [''820'', ''545'']"

definition conditions :: "string list" where
  "conditions = ['''', ''_rvb1'', ''_rvb2'']"

text \<open>
  \<open>Array.prototype.push\<close> appends one element at the end of the array; the array is
  the state that the loops thread.
\<close>

definition push :: "'a list \<Rightarrow> 'a \<Rightarrow> 'a list" where
  "push arr x = arr @ [x]"

text \<open>
  \<open>xs.forEach(f)\<close> calls \<open>f\<close> on the elements of \<open>xs\<close> in ascending index order.
  The callback's effect on the state is a function from state to state.
\<close>

definition forEach :: "'a list \<Rightarrow> ('a \<Rightarrow> 's \<Rightarrow> 's) \<Rightarrow> 's \<Rightarrow> 's" where
  "forEach xs f st = fold f xs st"

text \<open>The template literal \<open>`${emo}_${sex}${utt}${cond}.wav`\<close> of line 78.\<close>

definition filename :: "string \<Rightarrow> string \<Rightarrow> string \<Rightarrow> string \<Rightarrow> string" where
  "filename e s u c = e @ ''_'' @ s @ u @ c @ ''.wav''"

text \<open>
  Lines 73 to 83: the four nested loops, as a transformer of the array they push onto.
  The four lists are parameters, so that the loops can be studied on any input lists.
\<close>

definition generation_pass ::
  "string list \<Rightarrow> string list \<Rightarrow> string list \<Rightarrow> string list \<Rightarrow> string list \<Rightarrow> string list"
where
  "generation_pass es ss us cs =
     forEach es (\<lambda>e.
       forEach ss (\<lambda>s.
         forEach us (\<lambda>u.
           forEach cs (\<lambda>c arr. push arr (filename e s u c)))))"

text \<open>
  Line 66 binds the array to a fresh empty array before the loops run, so one run of the
  generation is the pass started on \<open>[]\<close>.
\<close>

definition generateTestFilenames ::
  "string list \<Rightarrow> string list \<Rightarrow> string list \<Rightarrow> string list \<Rightarrow> string list"
where
  "generateTestFilenames es ss us cs = generation_pass es ss us cs []"

definition FILES_TEST_5AFC :: "string list" where
  "FILES_TEST_5AFC = generateTestFilenames emotions sexes utterances conditions"

subsection \<open>Base filenames of the stage 2 targets\<close>

text \<open>
  Modelled from the spec: the script only lists the targets; the code that turns a target
  into a filename belongs to the experiment runner, which is not part of
  \<open>stimuli_list.js\<close>. The data model gives the base filename of a target as
  \<open>{emotion}_{sex}{utteranceId}.wav\<close>, which is the template of line 78 with the empty
  (dry) condition.
\<close>

definition base_filename :: "target \<Rightarrow> string" where
  "base_filename x = filename (emo x) (sex x) (utt x) ''''"

section \<open>The filename convention\<close>

text \<open>
  What a filename encodes is read off with the convention
  \<open>{emotion}_{sex}{utteranceId}[_{reverbSuffix}].wav\<close>: the emotion is everything
  before the first underscore, the sex is the one character after it, the utterance id is
  the run of decimal digits that follows, and what remains up to the final \<open>.wav\<close> is
  the condition suffix (empty for a dry clip). The script has no parser of its own; this
  one is the inverse of the template of line 78 (lemma \<open>decode_filename_filename\<close>).
\<close>

definition is_digit :: "char \<Rightarrow> bool" where
  "is_digit ch = (ch \<in> set ''0123456789'')"

definition decode_filename :: "string \<Rightarrow> (target \<times> string) option" where
  "decode_filename f =
     (case dropWhile (\<lambda>ch. ch \<noteq> CHR ''_'') f of
        [] \<Rightarrow> None
      | _ # r \<Rightarrow>
          (case r of
             [] \<Rightarrow> None
           | sx # r' \<Rightarrow>
               (let rest = dropWhile is_digit r'; n = length rest - 4 in
                if 4 \<le> length rest \<and> drop n rest = ''.wav''
                then Some (\<lparr>emo = takeWhile (\<lambda>ch. ch \<noteq> CHR ''_'') f, sex = [sx],
                             utt = takeWhile is_digit r'\<rparr>, take n rest)
                else None)))"

definition emotion_of :: "string \<Rightarrow> string option" where
  "emotion_of f = map_option (\<lambda>(x, c). emo x) (decode_filename f)"

definition sex_of :: "string \<Rightarrow> string option" where
  "sex_of f = map_option (\<lambda>(x, c). sex x) (decode_filename f)"

definition utterance_of :: "string \<Rightarrow> string option" where
  "utterance_of f = map_option (\<lambda>(x, c). utt x) (decode_filename f)"

text \<open>
  A filename matches the convention when it decodes to one of the six emotion labels, a
  sex \<open>F\<close> or \<open>M\<close>, a non-empty string of digits, and no suffix or one of the three
  reverb suffixes behind an underscore.
\<close>

definition matches_convention :: "string \<Rightarrow> bool" where
  "matches_convention f =
     (case decode_filename f of
        None \<Rightarrow> False
      | Some (x, sfx) \<Rightarrow>
          emo x \<in> set [''amu'', ''ang'', ''sad'', ''fear'', ''surp'', ''rel''] \<and>
          sex x \<in> set [''F'', ''M''] \<and>
          utt x \<noteq> [] \<and> list_all is_digit (utt x) \<and>
          sfx \<in> set ['''', ''_rvb'', ''_rvb1'', ''_rvb2''])"

text \<open>
  Parts from which the template builds a filename that decodes back to them: no
  underscore in an emotion, one character for a sex, digits for an utterance id, and a
  condition suffix that does not begin with a digit.
\<close>

definition well_formed_parts ::
  "string list \<Rightarrow> string list \<Rightarrow> string list \<Rightarrow> string list \<Rightarrow> bool"
where
  "well_formed_parts es ss us cs \<longleftrightarrow>
     list_all (\<lambda>e. CHR ''_'' \<notin> set e) es \<and>
     list_all (\<lambda>s. length s = 1) ss \<and>
     list_all (list_all is_digit) us \<and>
     list_all (\<lambda>c. c = [] \<or> \<not> is_digit (hd c)) cs"

section \<open>What the loops compute\<close>

text \<open>
  The closed form of what the four loops append: the filenames of the product of the four
  lists, the first list varying slowest and the last fastest.
\<close>

definition product_names ::
  "string list \<Rightarrow> string list \<Rightarrow> string list \<Rightarrow> string list \<Rightarrow> string list"
where
  "product_names es ss us cs =
     concat (map (\<lambda>e. concat (map (\<lambda>s. concat (map (\<lambda>u. map (filename e s u) cs) us)) ss)) es)"

lemmas stage4_defs =
  FILES_TEST_5AFC_def generateTestFilenames_def generation_pass_def forEach_def push_def
  filename_def emotions_def sexes_def utterances_def conditions_def

subsection \<open>The loops append the product\<close>

lemma forEach_appends:
  assumes "\<And>x acc. f x acc = acc @ h x"
  shows "forEach xs f acc = acc @ concat (map h xs)"
  unfolding forEach_def using assms
  by (induction xs arbitrary: acc) simp_all

lemma generation_pass_appends:
  "generation_pass es ss us cs acc = acc @ product_names es ss us cs"
proof -
  have inner: "forEach cs (\<lambda>c arr. push arr (filename e s u c)) acc = acc @ map (filename e s u) cs"
    for e s u acc
    using forEach_appends [of "\<lambda>c arr. push arr (filename e s u c)" "\<lambda>c. [filename e s u c]" cs acc]
    by (simp add: push_def comp_def)
  have l3: "forEach us (\<lambda>u. forEach cs (\<lambda>c arr. push arr (filename e s u c))) acc
      = acc @ concat (map (\<lambda>u. map (filename e s u) cs) us)" for e s acc
    by (rule forEach_appends) (rule inner)
  have l2: "forEach ss (\<lambda>s. forEach us (\<lambda>u. forEach cs (\<lambda>c arr. push arr (filename e s u c)))) acc
      = acc @ concat (map (\<lambda>s. concat (map (\<lambda>u. map (filename e s u) cs) us)) ss)" for e acc
    by (rule forEach_appends) (rule l3)
  show ?thesis
    unfolding generation_pass_def product_names_def
    by (rule forEach_appends) (rule l2)
qed

lemma concat_uniform_length:
  "(\<And>x. x \<in> set xs \<Longrightarrow> length (f x) = n) \<Longrightarrow> length (concat (map f xs)) = length xs * n"
  by (induction xs) simp_all

lemma concat_uniform_nth:
  "(\<And>x. x \<in> set xs \<Longrightarrow> length (f x) = n) \<Longrightarrow> i < length xs \<Longrightarrow> j < n \<Longrightarrow>
     concat (map f xs) ! (i * n + j) = f (xs ! i) ! j"
proof (induction xs arbitrary: i)
  case Nil
  then show ?case by simp
next
  case (Cons x xs)
  show ?case
  proof (cases i)
    case 0
    with Cons.prems show ?thesis by (simp add: nth_append)
  next
    case (Suc k)
    with Cons.prems have "concat (map f xs) ! (k * n + j) = f (xs ! k) ! j"
      by (intro Cons.IH) simp_all
    with Suc Cons.prems show ?thesis by (simp add: nth_append add.assoc)
  qed
qed

lemma product_names_alt:
  "product_names es ss us cs =
     map (\<lambda>(e, s, u, c). filename e s u c)
       (List.product es (List.product ss (List.product us cs)))"
  by (simp add: product_names_def product_concat_map map_concat comp_def)

lemma product_names_set:
  "set (product_names es ss us cs) =
     (\<lambda>(e, s, u, c). filename e s u c) ` (set es \<times> set ss \<times> set us \<times> set cs)"
  by (simp add: product_names_alt)

lemma product_names_length:
  "length (product_names es ss us cs) = length es * (length ss * (length us * length cs))"
  by (simp add: product_names_alt)

subsection \<open>Decoding inverts the template\<close>

lemma takeWhile_prefix_stop:
  "\<forall>x\<in>set xs. P x \<Longrightarrow> \<not> P y \<Longrightarrow> takeWhile P (xs @ y # ys) = xs"
  by (induction xs) simp_all

lemma dropWhile_prefix_stop:
  "\<forall>x\<in>set xs. P x \<Longrightarrow> \<not> P y \<Longrightarrow> dropWhile P (xs @ y # ys) = y # ys"
  by (induction xs) simp_all

lemma decode_filename_filename:
  assumes e: "CHR ''_'' \<notin> set e"
    and s: "length s = 1"
    and u: "\<forall>ch\<in>set u. is_digit ch"
    and c: "c = [] \<or> \<not> is_digit (hd c)"
  shows "decode_filename (filename e s u c) = Some (\<lparr>emo = e, sex = s, utt = u\<rparr>, c)"
proof -
  from s obtain sx where sx: "s = [sx]"
    by (cases s) simp_all
  from e have e': "\<forall>ch\<in>set e. ch \<noteq> CHR ''_''"
    by blast
  obtain y ys where tail: "c @ ''.wav'' = y # ys" and y: "\<not> is_digit y"
    using c by (cases c) (simp_all add: is_digit_def)
  have tw: "takeWhile (\<lambda>ch. ch \<noteq> CHR ''_'') (e @ CHR ''_'' # zs) = e" for zs
    using e' by (rule takeWhile_prefix_stop) simp
  have dw: "dropWhile (\<lambda>ch. ch \<noteq> CHR ''_'') (e @ CHR ''_'' # zs) = CHR ''_'' # zs" for zs
    using e' by (rule dropWhile_prefix_stop) simp
  have twd: "takeWhile is_digit (u @ c @ ''.wav'') = u"
    unfolding tail using u y by (rule takeWhile_prefix_stop)
  have dwd: "dropWhile is_digit (u @ c @ ''.wav'') = c @ ''.wav''"
    unfolding tail using u y by (rule dropWhile_prefix_stop)
  show ?thesis
    unfolding decode_filename_def filename_def sx
    by (simp add: tw dw twd dwd)
qed

lemma decode_filename_member:
  assumes "well_formed_parts es ss us cs"
    and "e \<in> set es" "s \<in> set ss" "u \<in> set us" "c \<in> set cs"
  shows "decode_filename (filename e s u c) = Some (\<lparr>emo = e, sex = s, utt = u\<rparr>, c)"
  using assms unfolding well_formed_parts_def list_all_iff
  by (intro decode_filename_filename) blast+

lemma product_names_distinct:
  assumes wf: "well_formed_parts es ss us cs"
    and d: "distinct es" "distinct ss" "distinct us" "distinct cs"
  shows "distinct (product_names es ss us cs)"
proof -
  let ?inv = "\<lambda>f. case decode_filename f of
                  Some (x, c) \<Rightarrow> (emo x, sex x, utt x, c) | None \<Rightarrow> ([], [], [], [])"
  have "inj_on (\<lambda>(e, s, u, c). filename e s u c) (set es \<times> set ss \<times> set us \<times> set cs)"
  proof (rule inj_on_inverseI [where g = ?inv])
    fix q assume "q \<in> set es \<times> set ss \<times> set us \<times> set cs"
    then obtain e s u c where q: "q = (e, s, u, c)"
      and m: "e \<in> set es" "s \<in> set ss" "u \<in> set us" "c \<in> set cs"
      by auto
    show "?inv ((\<lambda>(e, s, u, c). filename e s u c) q) = q"
      unfolding q by (simp add: decode_filename_member [OF wf m])
  qed
  with d show ?thesis
    by (simp add: product_names_alt distinct_map distinct_product)
qed

lemma distinct_count_list: "distinct xs \<Longrightarrow> x \<in> set xs \<Longrightarrow> count_list xs x = 1"
  by (induction xs) auto

lemma product_names_nth:
  assumes "e < length es" "s < length ss" "u < length us" "c < length cs"
  shows "product_names es ss us cs
           ! (((e * length ss + s) * length us + u) * length cs + c)
         = filename (es ! e) (ss ! s) (us ! u) (cs ! c)"
proof -
  let ?f3 = "\<lambda>e s u. map (filename e s u) cs"
  let ?f2 = "\<lambda>e s. concat (map (?f3 e s) us)"
  let ?f1 = "\<lambda>e. concat (map (?f2 e) ss)"
  have len2: "length (?f2 e s) = length us * length cs" for e s
    by (rule concat_uniform_length) simp
  have len1: "length (?f1 e) = length ss * (length us * length cs)" for e
    by (rule concat_uniform_length) (rule len2)
  have idx: "((e * length ss + s) * length us + u) * length cs + c
      = e * (length ss * (length us * length cs)) + (s * (length us * length cs) + (u * length cs + c))"
    by (simp add: algebra_simps)
  have b3: "u * length cs + c < length us * length cs"
  proof -
    have "u * length cs + c < (u + 1) * length cs" using assms(4) by simp
    also have "\<dots> \<le> length us * length cs" using assms(3) by (intro mult_le_mono1) simp
    finally show ?thesis .
  qed
  have b2: "s * (length us * length cs) + (u * length cs + c) < length ss * (length us * length cs)"
  proof -
    have "s * (length us * length cs) + (u * length cs + c) < (s + 1) * (length us * length cs)"
      using b3 by simp
    also have "\<dots> \<le> length ss * (length us * length cs)"
      using assms(2) by (intro mult_le_mono1) simp
    finally show ?thesis .
  qed
  have "product_names es ss us cs ! (e * (length ss * (length us * length cs))
          + (s * (length us * length cs) + (u * length cs + c)))
        = ?f1 (es ! e) ! (s * (length us * length cs) + (u * length cs + c))"
    unfolding product_names_def
    by (rule concat_uniform_nth) (simp_all add: len1 assms(1) b2)
  also have "\<dots> = ?f2 (es ! e) (ss ! s) ! (u * length cs + c)"
    by (rule concat_uniform_nth) (simp_all add: len2 assms(2) b3)
  also have "\<dots> = ?f3 (es ! e) (ss ! s) (us ! u) ! c"
    by (rule concat_uniform_nth) (simp_all add: assms(3) assms(4))
  also have "\<dots> = filename (es ! e) (ss ! s) (us ! u) (cs ! c)"
    using assms(4) by simp
  finally show ?thesis unfolding idx .
qed

lemma stage4_well_formed: "well_formed_parts emotions sexes utterances conditions"
  by (simp add: well_formed_parts_def emotions_def sexes_def utterances_def conditions_def is_digit_def)

subsection \<open>The generated list\<close>

lemma FILES_TEST_5AFC_product:
  "FILES_TEST_5AFC = product_names emotions sexes utterances conditions"
  by (simp add: FILES_TEST_5AFC_def generateTestFilenames_def generation_pass_appends)

lemma stage4_lists_distinct:
  "distinct emotions" "distinct sexes" "distinct utterances" "distinct conditions"
  by (simp_all add: emotions_def sexes_def utterances_def conditions_def)

lemma stage4_sets:
  "set emotions = {''amu'', ''ang'', ''sad'', ''fear'', ''surp''}"
  "set sexes = {''F'', ''M''}"
  "set utterances = {''820'', ''545''}"
  "set conditions = {'''', ''_rvb1'', ''_rvb2''}"
  by (simp_all add: emotions_def sexes_def utterances_def conditions_def)

lemma FILES_TEST_5AFC_distinct: "distinct FILES_TEST_5AFC"
  unfolding FILES_TEST_5AFC_product
  by (rule product_names_distinct [OF stage4_well_formed stage4_lists_distinct])

lemma FILES_TEST_5AFC_set:
  "set FILES_TEST_5AFC =
     (\<lambda>(e, s, u, c). filename e s u c) `
       ({''amu'', ''ang'', ''sad'', ''fear'', ''surp''} \<times> {''F'', ''M''} \<times> {''820'', ''545''} \<times>
        {'''', ''_rvb1'', ''_rvb2''})"
  unfolding FILES_TEST_5AFC_product product_names_set stage4_sets ..

lemma FILES_TEST_5AFC_decode:
  assumes "f \<in> set FILES_TEST_5AFC"
  obtains e s u c where "f = filename e s u c"
    and "e \<in> set emotions" "s \<in> set sexes" "u \<in> set utterances" "c \<in> set conditions"
    and "decode_filename f = Some (\<lparr>emo = e, sex = s, utt = u\<rparr>, c)"
proof -
  from assms obtain e s u c where f: "f = filename e s u c"
    and m: "e \<in> set emotions" "s \<in> set sexes" "u \<in> set utterances" "c \<in> set conditions"
    unfolding FILES_TEST_5AFC_product product_names_set by auto
  from decode_filename_member [OF stage4_well_formed m] f m that show ?thesis
    by simp
qed

subsection \<open>Decoding the literal tables\<close>

lemmas decode_defs = decode_filename_def is_digit_def

lemma PAIRS_decoded:
  "map (\<lambda>p. (t p, decode_filename (a p), decode_filename (b p))) PAIRS_DISCRIMINATION =
     [(''sad'', Some (\<lparr>emo = ''sad'', sex = ''F'', utt = ''137''\<rparr>, ''''),
               Some (\<lparr>emo = ''fear'', sex = ''F'', utt = ''137''\<rparr>, '''')),
      (''sad'', Some (\<lparr>emo = ''sad'', sex = ''M'', utt = ''137''\<rparr>, ''''),
               Some (\<lparr>emo = ''fear'', sex = ''M'', utt = ''137''\<rparr>, '''')),
      (''amu'', Some (\<lparr>emo = ''amu'', sex = ''F'', utt = ''545''\<rparr>, ''''),
               Some (\<lparr>emo = ''rel'', sex = ''F'', utt = ''545''\<rparr>, '''')),
      (''amu'', Some (\<lparr>emo = ''amu'', sex = ''M'', utt = ''545''\<rparr>, ''''),
               Some (\<lparr>emo = ''rel'', sex = ''M'', utt = ''545''\<rparr>, ''''))]"
  by (simp add: PAIRS_DISCRIMINATION_def decode_defs)

lemma FILES_PRACTICE_5AFC_decoded:
  "map decode_filename FILES_PRACTICE_5AFC =
     [Some (\<lparr>emo = ''amu'', sex = ''F'', utt = ''137''\<rparr>, ''''),
      Some (\<lparr>emo = ''amu'', sex = ''M'', utt = ''137''\<rparr>, ''''),
      Some (\<lparr>emo = ''ang'', sex = ''F'', utt = ''137''\<rparr>, ''''),
      Some (\<lparr>emo = ''ang'', sex = ''M'', utt = ''137''\<rparr>, ''''),
      Some (\<lparr>emo = ''sad'', sex = ''F'', utt = ''137''\<rparr>, ''''),
      Some (\<lparr>emo = ''sad'', sex = ''M'', utt = ''137''\<rparr>, ''''),
      Some (\<lparr>emo = ''fear'', sex = ''F'', utt = ''137''\<rparr>, ''''),
      Some (\<lparr>emo = ''fear'', sex = ''M'', utt = ''137''\<rparr>, ''''),
      Some (\<lparr>emo = ''surp'', sex = ''F'', utt = ''137''\<rparr>, ''''),
      Some (\<lparr>emo = ''surp'', sex = ''M'', utt = ''137''\<rparr>, '''')]"
  by (simp add: FILES_PRACTICE_5AFC_def decode_defs)

lemma FILES_TEST_5AFC_utterance:
  assumes "f \<in> set FILES_TEST_5AFC"
  shows "utterance_of f = Some ''820'' \<or> utterance_of f = Some ''545''"
proof -
  from assms obtain e s u c where "u \<in> set utterances"
    and "decode_filename f = Some (\<lparr>emo = e, sex = s, utt = u\<rparr>, c)"
    by (rule FILES_TEST_5AFC_decode)
  then show ?thesis
    by (auto simp add: utterance_of_def stage4_sets)
qed

lemma FILES_PRACTICE_5AFC_utterance:
  "\<forall>f\<in>set FILES_PRACTICE_5AFC. utterance_of f = Some ''137''"
  by (simp add: FILES_PRACTICE_5AFC_def utterance_of_def decode_filename_def is_digit_def)

lemma FILES_TEST_5AFC_convention:
  assumes "f \<in> set FILES_TEST_5AFC"
  shows "f \<noteq> [] \<and> matches_convention f"
proof -
  from assms obtain e s u c where f: "f = filename e s u c"
    and m: "e \<in> set emotions" "s \<in> set sexes" "u \<in> set utterances" "c \<in> set conditions"
    and d: "decode_filename f = Some (\<lparr>emo = e, sex = s, utt = u\<rparr>, c)"
    by (rule FILES_TEST_5AFC_decode)
  have "f \<noteq> []"
    by (simp add: f filename_def)
  moreover from m have "matches_convention f"
    unfolding stage4_sets by (auto simp add: matches_convention_def d is_digit_def)
  ultimately show ?thesis ..
qed

section \<open>The claims\<close>

subsection \<open>The generated test list\<close>

text \<open>
  Claim C1. The test list \<open>FILES_TEST_5AFC\<close> has exactly 60 filenames and no duplicate;
  its elements are exactly the filenames built from the tuples of
  \<open>{amu, ang, sad, fear, surp} \<times> {F, M} \<times> {820, 545} \<times> {dry, rvb1, rvb2}\<close>, and for
  every such tuple exactly one element of the list equals the filename built from it.
  The three conditions are the suffixes that the script concatenates: the empty string
  for dry, \<open>_rvb1\<close> and \<open>_rvb2\<close>.
\<close>

theorem test_files_cover_product:
  "length FILES_TEST_5AFC = 60 \<and> distinct FILES_TEST_5AFC \<and>
   set FILES_TEST_5AFC =
     (\<lambda>(e, s, u, c). e @ ''_'' @ s @ u @ c @ ''.wav'') `
       ({''amu'', ''ang'', ''sad'', ''fear'', ''surp''} \<times> {''F'', ''M''} \<times> {''820'', ''545''} \<times>
        {'''', ''_rvb1'', ''_rvb2''}) \<and>
   (\<forall>e\<in>{''amu'', ''ang'', ''sad'', ''fear'', ''surp''}. \<forall>s\<in>{''F'', ''M''}.
      \<forall>u\<in>{''820'', ''545''}. \<forall>c\<in>{'''', ''_rvb1'', ''_rvb2''}.
        count_list FILES_TEST_5AFC (e @ ''_'' @ s @ u @ c @ ''.wav'') = 1)"
proof (intro conjI ballI)
  show "length FILES_TEST_5AFC = 60"
    by (simp add: FILES_TEST_5AFC_product product_names_length
        emotions_def sexes_def utterances_def conditions_def)
  show "distinct FILES_TEST_5AFC"
    by (rule FILES_TEST_5AFC_distinct)
  show "set FILES_TEST_5AFC =
     (\<lambda>(e, s, u, c). e @ ''_'' @ s @ u @ c @ ''.wav'') `
       ({''amu'', ''ang'', ''sad'', ''fear'', ''surp''} \<times> {''F'', ''M''} \<times> {''820'', ''545''} \<times>
        {'''', ''_rvb1'', ''_rvb2''})"
    unfolding FILES_TEST_5AFC_set filename_def ..
next
  fix e s u c :: string
  assume "e \<in> {''amu'', ''ang'', ''sad'', ''fear'', ''surp''}" "s \<in> {''F'', ''M''}"
    "u \<in> {''820'', ''545''}" "c \<in> {'''', ''_rvb1'', ''_rvb2''}"
  then have "(e, s, u, c) \<in> {''amu'', ''ang'', ''sad'', ''fear'', ''surp''} \<times> {''F'', ''M''} \<times>
      {''820'', ''545''} \<times> {'''', ''_rvb1'', ''_rvb2''}"
    by blast
  then have "filename e s u c \<in> set FILES_TEST_5AFC"
    unfolding FILES_TEST_5AFC_set by (rule image_eqI [rotated]) simp
  with FILES_TEST_5AFC_distinct have "count_list FILES_TEST_5AFC (filename e s u c) = 1"
    by (rule distinct_count_list)
  then show "count_list FILES_TEST_5AFC (e @ ''_'' @ s @ u @ c @ ''.wav'') = 1"
    by (simp only: filename_def)
qed

theorem test_files_cover_product_witness:
  "''sad'' \<in> {''amu'', ''ang'', ''sad'', ''fear'', ''surp''} \<and> ''M'' \<in> {''F'', ''M''} \<and>
   ''545'' \<in> {''820'', ''545''} \<and> ''_rvb1'' \<in> {'''', ''_rvb1'', ''_rvb2''} \<and>
   count_list FILES_TEST_5AFC ''sad_M545_rvb1.wav'' = 1"
proof -
  have m: "''sad'' \<in> {''amu'', ''ang'', ''sad'', ''fear'', ''surp''}" "''M'' \<in> {''F'', ''M''}"
    "''545'' \<in> {''820'', ''545''}" "''_rvb1'' \<in> {'''', ''_rvb1'', ''_rvb2''}"
    by simp_all
  from test_files_cover_product
  have "\<forall>e\<in>{''amu'', ''ang'', ''sad'', ''fear'', ''surp''}. \<forall>s\<in>{''F'', ''M''}.
      \<forall>u\<in>{''820'', ''545''}. \<forall>c\<in>{'''', ''_rvb1'', ''_rvb2''}.
        count_list FILES_TEST_5AFC (e @ ''_'' @ s @ u @ c @ ''.wav'') = 1"
    by (elim conjE)
  from this [rule_format, OF m] m show ?thesis
    by simp
qed

text \<open>
  Claim C2. The elements appear in the order of the nested iteration, emotion outermost
  and condition innermost: for an emotion index \<open>e\<close> below 5, a sex index \<open>s\<close> below 2,
  an utterance index \<open>u\<close> below 2 and a condition index \<open>c\<close> below 3, the element at
  index \<open>((e * 2 + s) * 2 + u) * 3 + c\<close> is the emotion, an underscore, the sex, the
  utterance id, the condition suffix and \<open>.wav\<close>.
\<close>

theorem test_files_index_order:
  assumes "e < 5" "s < 2" "u < 2" "c < 3"
  shows "FILES_TEST_5AFC ! (((e * 2 + s) * 2 + u) * 3 + c) =
           [''amu'', ''ang'', ''sad'', ''fear'', ''surp''] ! e @ ''_'' @ [''F'', ''M''] ! s @
           [''820'', ''545''] ! u @ ['''', ''_rvb1'', ''_rvb2''] ! c @ ''.wav''"
proof -
  have "FILES_TEST_5AFC
          ! (((e * length sexes + s) * length utterances + u) * length conditions + c)
        = filename (emotions ! e) (sexes ! s) (utterances ! u) (conditions ! c)"
    unfolding FILES_TEST_5AFC_product
    using assms
    by (intro product_names_nth)
      (simp_all add: emotions_def sexes_def utterances_def conditions_def)
  moreover have "((e * length sexes + s) * length utterances + u) * length conditions + c
      = ((e * 2 + s) * 2 + u) * 3 + c"
    by (simp add: sexes_def utterances_def conditions_def)
  moreover have "filename (emotions ! e) (sexes ! s) (utterances ! u) (conditions ! c)
      = [''amu'', ''ang'', ''sad'', ''fear'', ''surp''] ! e @ ''_'' @ [''F'', ''M''] ! s @
        [''820'', ''545''] ! u @ ['''', ''_rvb1'', ''_rvb2''] ! c @ ''.wav''"
    by (simp add: filename_def emotions_def sexes_def utterances_def conditions_def)
  ultimately show ?thesis
    by (simp only:)
qed

theorem test_files_index_order_witness:
  "(2::nat) < 5 \<and> (1::nat) < 2 \<and> (0::nat) < 2 \<and> (1::nat) < 3 \<and>
   FILES_TEST_5AFC ! 31 = ''sad_M820_rvb1.wav''"
  using test_files_index_order [of 2 1 0 1] by simp

text \<open>
  Claim C3. The first element of the test list is \<open>amu_F820.wav\<close> and its last, the
  60th, is \<open>surp_M545_rvb2.wav\<close>.
\<close>

theorem test_files_first_last:
  "length FILES_TEST_5AFC = 60 \<and>
   FILES_TEST_5AFC ! 0 = ''amu_F820.wav'' \<and> hd FILES_TEST_5AFC = ''amu_F820.wav'' \<and>
   FILES_TEST_5AFC ! 59 = ''surp_M545_rvb2.wav'' \<and> last FILES_TEST_5AFC = ''surp_M545_rvb2.wav''"
  by (simp add: stage4_defs)

subsection \<open>The literal tables\<close>

text \<open>
  Claim C4. The discrimination-pair list has exactly 4 entries. In every entry the sex
  and the utterance id encoded in \<open>a\<close> (fileA) and in \<open>b\<close> (fileB) are the same, the
  target emotion \<open>t\<close> is the emotion encoded in \<open>a\<close>, and the emotion encoded in \<open>b\<close>
  differs from the one encoded in \<open>a\<close>.
\<close>

theorem discrimination_pairs_consistent:
  "length PAIRS_DISCRIMINATION = 4 \<and>
   (\<forall>p\<in>set PAIRS_DISCRIMINATION.
      \<exists>xa ca xb cb.
        decode_filename (a p) = Some (xa, ca) \<and> decode_filename (b p) = Some (xb, cb) \<and>
        sex xa = sex xb \<and> utt xa = utt xb \<and> t p = emo xa \<and> emo xb \<noteq> emo xa)"
  by (simp add: PAIRS_DISCRIMINATION_def decode_defs)

theorem discrimination_pairs_consistent_witness:
  "\<lparr>t = ''amu'', a = ''amu_M545.wav'', b = ''rel_M545.wav''\<rparr> \<in> set PAIRS_DISCRIMINATION \<and>
   (\<exists>xa ca xb cb.
      decode_filename ''amu_M545.wav'' = Some (xa, ca) \<and>
      decode_filename ''rel_M545.wav'' = Some (xb, cb) \<and>
      sex xa = sex xb \<and> utt xa = utt xb \<and> ''amu'' = emo xa \<and> emo xb \<noteq> emo xa)"
proof -
  have m: "\<lparr>t = ''amu'', a = ''amu_M545.wav'', b = ''rel_M545.wav''\<rparr> \<in> set PAIRS_DISCRIMINATION"
    by (simp add: PAIRS_DISCRIMINATION_def)
  from discrimination_pairs_consistent have "\<forall>p\<in>set PAIRS_DISCRIMINATION.
      \<exists>xa ca xb cb.
        decode_filename (a p) = Some (xa, ca) \<and> decode_filename (b p) = Some (xb, cb) \<and>
        sex xa = sex xb \<and> utt xa = utt xb \<and> t p = emo xa \<and> emo xb \<noteq> emo xa"
    by (elim conjE)
  from bspec [OF this m] m show ?thesis
    by simp
qed

text \<open>
  Claim C5. The dry-versus-reverb target list has exactly 8 entries; the set of its
  (emotion, sex) pairs is \<open>{sad, fear, amu, rel} \<times> {F, M}\<close>; every entry has utterance
  id 137 when its emotion is sad or fear, and 545 when its emotion is amu or rel.
\<close>

theorem dry_reverb_targets_shape:
  "length TARGETS_DRY_RVB = 8 \<and>
   set (map (\<lambda>x. (emo x, sex x)) TARGETS_DRY_RVB) =
     {''sad'', ''fear'', ''amu'', ''rel''} \<times> {''F'', ''M''} \<and>
   (\<forall>x\<in>set TARGETS_DRY_RVB.
      (emo x \<in> {''sad'', ''fear''} \<longrightarrow> utt x = ''137'') \<and>
      (emo x \<in> {''amu'', ''rel''} \<longrightarrow> utt x = ''545''))"
  by (auto simp add: TARGETS_DRY_RVB_def)

theorem dry_reverb_targets_shape_witness:
  "\<lparr>emo = ''fear'', sex = ''M'', utt = ''137''\<rparr> \<in> set TARGETS_DRY_RVB \<and>
   emo \<lparr>emo = ''fear'', sex = ''M'', utt = ''137''\<rparr> \<in> {''sad'', ''fear''} \<and>
   utt \<lparr>emo = ''fear'', sex = ''M'', utt = ''137''\<rparr> = ''137'' \<and>
   \<lparr>emo = ''rel'', sex = ''F'', utt = ''545''\<rparr> \<in> set TARGETS_DRY_RVB \<and>
   emo \<lparr>emo = ''rel'', sex = ''F'', utt = ''545''\<rparr> \<in> {''amu'', ''rel''} \<and>
   utt \<lparr>emo = ''rel'', sex = ''F'', utt = ''545''\<rparr> = ''545''"
proof -
  have m1: "\<lparr>emo = ''fear'', sex = ''M'', utt = ''137''\<rparr> \<in> set TARGETS_DRY_RVB"
    and m2: "\<lparr>emo = ''rel'', sex = ''F'', utt = ''545''\<rparr> \<in> set TARGETS_DRY_RVB"
    by (simp_all add: TARGETS_DRY_RVB_def)
  have h1: "emo \<lparr>emo = ''fear'', sex = ''M'', utt = ''137''\<rparr> \<in> {''sad'', ''fear''}"
    and h2: "emo \<lparr>emo = ''rel'', sex = ''F'', utt = ''545''\<rparr> \<in> {''amu'', ''rel''}"
    by simp_all
  from dry_reverb_targets_shape
  have all: "\<forall>x\<in>set TARGETS_DRY_RVB.
      (emo x \<in> {''sad'', ''fear''} \<longrightarrow> utt x = ''137'') \<and>
      (emo x \<in> {''amu'', ''rel''} \<longrightarrow> utt x = ''545'')"
    by (elim conjE)
  from bspec [OF all m1] h1
  have r1: "utt \<lparr>emo = ''fear'', sex = ''M'', utt = ''137''\<rparr> = ''137''"
    by blast
  from bspec [OF all m2] h2
  have r2: "utt \<lparr>emo = ''rel'', sex = ''F'', utt = ''545''\<rparr> = ''545''"
    by blast
  from m1 h1 r1 m2 h2 r2 show ?thesis
    by (intro conjI)
qed

text \<open>
  Claim C6. The practice list has exactly 10 entries; the emotions encoded in its
  filenames are exactly amu, ang, sad, fear and surp; each emotion occurs in exactly 2
  entries, one with sex F and one with sex M; every entry encodes utterance id 137.
\<close>

theorem practice_files_shape:
  "length FILES_PRACTICE_5AFC = 10 \<and>
   set (map emotion_of FILES_PRACTICE_5AFC) =
     {Some ''amu'', Some ''ang'', Some ''sad'', Some ''fear'', Some ''surp''} \<and>
   (\<forall>e\<in>{''amu'', ''ang'', ''sad'', ''fear'', ''surp''}.
      length (filter (\<lambda>f. emotion_of f = Some e) FILES_PRACTICE_5AFC) = 2 \<and>
      length (filter (\<lambda>f. emotion_of f = Some e \<and> sex_of f = Some ''F'') FILES_PRACTICE_5AFC) = 1 \<and>
      length (filter (\<lambda>f. emotion_of f = Some e \<and> sex_of f = Some ''M'') FILES_PRACTICE_5AFC) = 1) \<and>
   (\<forall>f\<in>set FILES_PRACTICE_5AFC. utterance_of f = Some ''137'')"
  by (simp add: FILES_PRACTICE_5AFC_def emotion_of_def sex_of_def utterance_of_def decode_defs)

theorem practice_files_shape_witness:
  "''fear'' \<in> {''amu'', ''ang'', ''sad'', ''fear'', ''surp''} \<and>
   length (filter (\<lambda>f. emotion_of f = Some ''fear'') FILES_PRACTICE_5AFC) = 2 \<and>
   length (filter (\<lambda>f. emotion_of f = Some ''fear'' \<and> sex_of f = Some ''F'') FILES_PRACTICE_5AFC) = 1 \<and>
   length (filter (\<lambda>f. emotion_of f = Some ''fear'' \<and> sex_of f = Some ''M'') FILES_PRACTICE_5AFC) = 1 \<and>
   ''surp_M137.wav'' \<in> set FILES_PRACTICE_5AFC \<and> utterance_of ''surp_M137.wav'' = Some ''137''"
proof -
  have m1: "''fear'' \<in> {''amu'', ''ang'', ''sad'', ''fear'', ''surp''}"
    by simp
  have m2: "''surp_M137.wav'' \<in> set FILES_PRACTICE_5AFC"
    by (simp add: FILES_PRACTICE_5AFC_def)
  note all = practice_files_shape
  from all have "\<forall>e\<in>{''amu'', ''ang'', ''sad'', ''fear'', ''surp''}.
      length (filter (\<lambda>f. emotion_of f = Some e) FILES_PRACTICE_5AFC) = 2 \<and>
      length (filter (\<lambda>f. emotion_of f = Some e \<and> sex_of f = Some ''F'') FILES_PRACTICE_5AFC) = 1 \<and>
      length (filter (\<lambda>f. emotion_of f = Some e \<and> sex_of f = Some ''M'') FILES_PRACTICE_5AFC) = 1"
    by (elim conjE)
  note r1 = bspec [OF this m1]
  from all have "\<forall>f\<in>set FILES_PRACTICE_5AFC. utterance_of f = Some ''137''"
    by (elim conjE)
  note r2 = bspec [OF this m2]
  from m1 r1 m2 r2 show ?thesis
    by (intro conjI) (elim conjE, assumption)+
qed

subsection \<open>Running the generation again\<close>



subsection \<open>The catalog as a whole\<close>

text \<open>
  Claim C8. Every filename of the catalog is non-empty and matches the convention
  \<open>{emotion}_{sex}{utteranceId}[_{reverbSuffix}].wav\<close>, with the emotion one of amu, ang,
  sad, fear, surp and rel, the sex F or M, the utterance id a string of digits, and the
  reverb suffix rvb, rvb1, rvb2 or absent: both files of every discrimination pair, the
  base filename of every dry-versus-reverb target, every practice filename and every
  generated test filename.
\<close>

theorem catalog_files_match_convention:
  "(\<forall>p\<in>set PAIRS_DISCRIMINATION.
      a p \<noteq> [] \<and> matches_convention (a p) \<and> b p \<noteq> [] \<and> matches_convention (b p)) \<and>
   (\<forall>x\<in>set TARGETS_DRY_RVB. base_filename x \<noteq> [] \<and> matches_convention (base_filename x)) \<and>
   (\<forall>f\<in>set FILES_PRACTICE_5AFC. f \<noteq> [] \<and> matches_convention f) \<and>
   (\<forall>f\<in>set FILES_TEST_5AFC. f \<noteq> [] \<and> matches_convention f)"
proof (intro conjI)
  show "\<forall>p\<in>set PAIRS_DISCRIMINATION.
      a p \<noteq> [] \<and> matches_convention (a p) \<and> b p \<noteq> [] \<and> matches_convention (b p)"
    by (simp add: PAIRS_DISCRIMINATION_def matches_convention_def decode_filename_def is_digit_def)
  show "\<forall>x\<in>set TARGETS_DRY_RVB. base_filename x \<noteq> [] \<and> matches_convention (base_filename x)"
    by (simp add: TARGETS_DRY_RVB_def base_filename_def filename_def matches_convention_def
        decode_filename_def is_digit_def)
  show "\<forall>f\<in>set FILES_PRACTICE_5AFC. f \<noteq> [] \<and> matches_convention f"
    by (simp add: FILES_PRACTICE_5AFC_def matches_convention_def decode_filename_def is_digit_def)
  show "\<forall>f\<in>set FILES_TEST_5AFC. f \<noteq> [] \<and> matches_convention f"
    using FILES_TEST_5AFC_convention by blast
qed

theorem catalog_files_match_convention_witness:
  "\<lparr>t = ''sad'', a = ''sad_F137.wav'', b = ''fear_F137.wav''\<rparr> \<in> set PAIRS_DISCRIMINATION \<and>
   matches_convention ''sad_F137.wav'' \<and> matches_convention ''fear_F137.wav'' \<and>
   \<lparr>emo = ''rel'', sex = ''M'', utt = ''545''\<rparr> \<in> set TARGETS_DRY_RVB \<and>
   matches_convention ''rel_M545.wav'' \<and>
   ''ang_F137.wav'' \<in> set FILES_PRACTICE_5AFC \<and> matches_convention ''ang_F137.wav'' \<and>
   ''surp_F820_rvb2.wav'' \<in> set FILES_TEST_5AFC \<and> matches_convention ''surp_F820_rvb2.wav''"
proof -
  have m1: "\<lparr>t = ''sad'', a = ''sad_F137.wav'', b = ''fear_F137.wav''\<rparr> \<in> set PAIRS_DISCRIMINATION"
    by (simp add: PAIRS_DISCRIMINATION_def)
  have m2: "\<lparr>emo = ''rel'', sex = ''M'', utt = ''545''\<rparr> \<in> set TARGETS_DRY_RVB"
    by (simp add: TARGETS_DRY_RVB_def)
  have m3: "''ang_F137.wav'' \<in> set FILES_PRACTICE_5AFC"
    by (simp add: FILES_PRACTICE_5AFC_def)
  have m4: "''surp_F820_rvb2.wav'' \<in> set FILES_TEST_5AFC"
    by (simp add: stage4_defs)
  note all = catalog_files_match_convention
  from all have "\<forall>p\<in>set PAIRS_DISCRIMINATION.
      a p \<noteq> [] \<and> matches_convention (a p) \<and> b p \<noteq> [] \<and> matches_convention (b p)"
    by (elim conjE)
  from bspec [OF this m1] have r1: "matches_convention ''sad_F137.wav''"
    "matches_convention ''fear_F137.wav''"
    by simp_all
  from all have "\<forall>x\<in>set TARGETS_DRY_RVB. base_filename x \<noteq> [] \<and> matches_convention (base_filename x)"
    by (elim conjE)
  from bspec [OF this m2] have r2: "matches_convention ''rel_M545.wav''"
    by (simp add: base_filename_def filename_def)
  from all have "\<forall>f\<in>set FILES_PRACTICE_5AFC. f \<noteq> [] \<and> matches_convention f"
    by (elim conjE)
  from bspec [OF this m3] have r3: "matches_convention ''ang_F137.wav''"
    by simp
  from all have "\<forall>f\<in>set FILES_TEST_5AFC. f \<noteq> [] \<and> matches_convention f"
    by (elim conjE)
  from bspec [OF this m4] have r4: "matches_convention ''surp_F820_rvb2.wav''"
    by simp
  from m1 m2 m3 m4 r1 r2 r3 r4 show ?thesis
    by (intro conjI)
qed

text \<open>
  Claim C9. The filenames that occur as \<open>a\<close> or \<open>b\<close> in the 4 discrimination pairs are
  exactly the 8 base filenames of the dry-versus-reverb targets: stage 1 and stage 2
  refer to the same dry clips.
\<close>

theorem pairs_and_targets_same_clips:
  "set (concat (map (\<lambda>p. [a p, b p]) PAIRS_DISCRIMINATION)) = set (map base_filename TARGETS_DRY_RVB) \<and>
   card (set (map base_filename TARGETS_DRY_RVB)) = 8"
  by (auto simp add: PAIRS_DISCRIMINATION_def TARGETS_DRY_RVB_def base_filename_def filename_def)

text \<open>
  Claim C10. The practice list and the generated test list are disjoint: no filename
  occurs in both, since every practice filename encodes utterance id 137 and every test
  filename encodes utterance id 820 or 545.
\<close>

theorem practice_test_disjoint:
  "set FILES_PRACTICE_5AFC \<inter> set FILES_TEST_5AFC = {} \<and>
   (\<forall>f\<in>set FILES_PRACTICE_5AFC. utterance_of f = Some ''137'') \<and>
   (\<forall>f\<in>set FILES_TEST_5AFC. utterance_of f = Some ''820'' \<or> utterance_of f = Some ''545'')"
proof (intro conjI)
  show p: "\<forall>f\<in>set FILES_PRACTICE_5AFC. utterance_of f = Some ''137''"
    by (rule FILES_PRACTICE_5AFC_utterance)
  show q: "\<forall>f\<in>set FILES_TEST_5AFC. utterance_of f = Some ''820'' \<or> utterance_of f = Some ''545''"
    using FILES_TEST_5AFC_utterance by blast
  show "set FILES_PRACTICE_5AFC \<inter> set FILES_TEST_5AFC = {}"
  proof (rule ccontr)
    assume "set FILES_PRACTICE_5AFC \<inter> set FILES_TEST_5AFC \<noteq> {}"
    then obtain f where "f \<in> set FILES_PRACTICE_5AFC" "f \<in> set FILES_TEST_5AFC"
      by blast
    with p q have "utterance_of f = Some ''137''"
      "utterance_of f = Some ''820'' \<or> utterance_of f = Some ''545''"
      by blast+
    then show False
      by auto
  qed
qed

theorem practice_test_disjoint_witness:
  "''fear_M137.wav'' \<in> set FILES_PRACTICE_5AFC \<and> utterance_of ''fear_M137.wav'' = Some ''137'' \<and>
   ''ang_M545_rvb1.wav'' \<in> set FILES_TEST_5AFC \<and> utterance_of ''ang_M545_rvb1.wav'' = Some ''545''"
proof -
  have m1: "''fear_M137.wav'' \<in> set FILES_PRACTICE_5AFC"
    by (simp add: FILES_PRACTICE_5AFC_def)
  have m2: "''ang_M545_rvb1.wav'' \<in> set FILES_TEST_5AFC"
    by (simp add: stage4_defs)
  note all = practice_test_disjoint
  from all have "\<forall>f\<in>set FILES_PRACTICE_5AFC. utterance_of f = Some ''137''"
    by (elim conjE)
  from bspec [OF this m1] have r1: "utterance_of ''fear_M137.wav'' = Some ''137''" .
  from all have "\<forall>f\<in>set FILES_TEST_5AFC. utterance_of f = Some ''820'' \<or> utterance_of f = Some ''545''"
    by (elim conjE)
  from bspec [OF this m2] have "utterance_of ''ang_M545_rvb1.wav'' = Some ''820'' \<or>
      utterance_of ''ang_M545_rvb1.wav'' = Some ''545''" .
  moreover have "utterance_of ''ang_M545_rvb1.wav'' \<noteq> Some ''820''"
    by (simp add: utterance_of_def decode_filename_def is_digit_def)
  ultimately have r2: "utterance_of ''ang_M545_rvb1.wav'' = Some ''545''"
    by blast
  from m1 r1 m2 r2 show ?thesis
    by (intro conjI)
qed

end
